theory Spec2Isabelle
  imports Main "HOL-Library.Word"
begin

section \<open>Package webrpc: the JSON-RPC envelope\<close>

subsection \<open>Error codes, messages and the protocol literal\<close>

text \<open>The package-level variables of \<^verbatim>\<open>webrpc.go\<close>. Go's \<^verbatim>\<open>int\<close> holds each
  of these codes exactly and no arithmetic is done on them, so they are integers.\<close>

definition errCodeParseError :: int where
  "errCodeParseError = - 32700"

definition errCodeInvalidRequest :: int where
  "errCodeInvalidRequest = - 32600"

definition errCodeMethodNotFound :: int where
  "errCodeMethodNotFound = - 32601"

definition errCodeInvalidParams :: int where
  "errCodeInvalidParams = - 32602"

definition errCodeInternalError :: int where
  "errCodeInternalError = - 32603"

definition errMsgParseError :: string where
  "errMsgParseError = ''Parse error''"

definition errMsgInvalidRequest :: string where
  "errMsgInvalidRequest = ''Invalid Request''"

definition errMsgMethodNotFound :: string where
  "errMsgMethodNotFound = ''Method not found''"

definition errMsgInvalidParams :: string where
  "errMsgInvalidParams = ''Invalid params''"

definition errMsgInternalError :: string where
  "errMsgInternalError = ''Internal error''"

definition errMsgNotPost :: string where
  "errMsgNotPost = ''only support http POST''"

definition errMsgInvalidJsonrpc :: string where
  "errMsgInvalidJsonrpc = ''invalid jsonrpc''"

definition jsonRPC :: string where
  "jsonRPC = ''2.0''"

subsection \<open>Request, RPCError and Response\<close>

text \<open>The fields of \<^verbatim>\<open>Request\<close> carry the suffix \<open>_req\<close> where \<^verbatim>\<open>Response\<close> has a
  field of the same name.\<close>

record Request =
  ID_req :: string
  Jsonrpc_req :: string
  Method :: string
  Params :: "string \<rightharpoonup> string"

record RPCError =
  Code :: int
  Message :: string
  Data :: string

text \<open>A pointer field is an option: \<open>None\<close> is Go's \<^verbatim>\<open>nil\<close>. \<^verbatim>\<open>Result\<close> has the
  type \<^verbatim>\<open>interface{}\<close>: it is either the nil interface (\<open>None\<close>) or holds a value of
  some type \<open>'v\<close>. With \<^verbatim>\<open>omitempty\<close> the encoder leaves a nil \<^verbatim>\<open>Error\<close> and a nil
  \<^verbatim>\<open>Result\<close> out of the JSON object, so a field is present on the wire exactly when it
  is not \<open>None\<close>.\<close>

record 'v Response =
  ID :: "string option"
  Jsonrpc :: string
  Error :: "RPCError option"
  Result :: "'v option"

definition NewRequest :: "string \<Rightarrow> (string \<rightharpoonup> string) \<Rightarrow> string \<Rightarrow> Request" where
  "NewRequest method params id' =
     \<lparr>ID_req = id', Jsonrpc_req = jsonRPC, Method = method, Params = params\<rparr>"

text \<open>The composite literal of \<^verbatim>\<open>makeSuccessResponse\<close> names \<^verbatim>\<open>ID\<close>, \<^verbatim>\<open>Result\<close> and
  \<^verbatim>\<open>Jsonrpc\<close>; \<^verbatim>\<open>Error\<close> keeps its zero value, nil. The argument \<^verbatim>\<open>result\<close> is an
  \<^verbatim>\<open>interface{}\<close> and is stored as it is given.\<close>

definition makeSuccessResponse :: "string \<Rightarrow> 'v option \<Rightarrow> 'v Response" where
  "makeSuccessResponse id' result =
     \<lparr>ID = Some id', Jsonrpc = jsonRPC, Error = None, Result = result\<rparr>"

text \<open>The composite literal of \<^verbatim>\<open>makeErrorResponse\<close> names \<^verbatim>\<open>Error\<close> and \<^verbatim>\<open>Jsonrpc\<close>;
  \<^verbatim>\<open>ID\<close> and \<^verbatim>\<open>Result\<close> keep their zero value, nil, and so does the \<^verbatim>\<open>Data\<close> string
  of the error.\<close>

definition makeErrorResponse :: "int \<Rightarrow> string \<Rightarrow> 'v Response" where
  "makeErrorResponse code message =
     \<lparr>ID = None, Jsonrpc = jsonRPC,
      Error = Some \<lparr>Code = code, Message = message, Data = ''''\<rparr>, Result = None\<rparr>"

text \<open>What a client can see of a Response: which of the two members it carries.\<close>

definition hasResult :: "'v Response \<Rightarrow> bool" where
  "hasResult r = (Result r \<noteq> None)"

definition hasError :: "'v Response \<Rightarrow> bool" where
  "hasError r = (Error r \<noteq> None)"

definition exactlyOne :: "'v Response \<Rightarrow> bool" where
  "exactlyOne r = (hasResult r \<noteq> hasError r)"

subsection \<open>The handler registry and \<^verbatim>\<open>makeRPC\<close>\<close>

text \<open>The four handler functions that \<^verbatim>\<open>makeRPC\<close> names are not in the source file; each
  is represented by its name.\<close>

datatype handler =
  getStatusHandler | getLastBlocksHandler | getBlocksHandler | getOutputsHandler

text \<open>Modelled from the spec: a duplicate registration is a construction-time fatal
  error; the process does not go on.\<close>

datatype fatal = DuplicateMethod string

text \<open>Modelled from the spec: the type \<^verbatim>\<open>rpcHandler\<close> is not in the source file. It holds
  the configuration inputs that \<^verbatim>\<open>newRPCHandler\<close> is called with (queue capacity, worker
  count, the Gateway collaborator and the shutdown channel) and the Handler Registry, a
  mapping from method name to handler function.\<close>

record ('g, 'c) rpcHandler =
  queueSize :: nat
  workerNum :: nat
  gateway :: 'g
  quit :: 'c
  handlers :: "string \<rightharpoonup> handler"

text \<open>Modelled from the spec: \<^verbatim>\<open>newRPCHandler\<close> is not in the source file. The registry is
  built once at startup by the registrations of \<^verbatim>\<open>makeRPC\<close>, so the handler it returns
  has no method bound yet.\<close>

definition newRPCHandler :: "nat \<Rightarrow> nat \<Rightarrow> 'g \<Rightarrow> 'c \<Rightarrow> ('g, 'c) rpcHandler" where
  "newRPCHandler queueSize' workerNum' gateway' c =
     \<lparr>queueSize = queueSize', workerNum = workerNum', gateway = gateway', quit = c,
      handlers = Map.empty\<rparr>"

text \<open>Modelled from the spec: the method \<^verbatim>\<open>HandlerFunc\<close> of \<^verbatim>\<open>rpcHandler\<close> is not in the
  source file. \<open>Register(method, handler)\<close> fails fatally if the method is already bound,
  and binds it otherwise.\<close>

definition HandlerFunc ::
  "string \<Rightarrow> handler \<Rightarrow> ('g, 'c) rpcHandler \<Rightarrow> fatal + ('g, 'c) rpcHandler" where
  "HandlerFunc method hf rpc =
     (if handlers rpc method \<noteq> None then Inl (DuplicateMethod method)
      else Inr (rpc\<lparr>handlers := (handlers rpc)(method \<mapsto> hf)\<rparr>))"

text \<open>\<^verbatim>\<open>makeRPC\<close>, as in the source: the new handler, then four registrations in this order.
  A fatal error of a registration ends the function.\<close>

definition makeRPC :: "nat \<Rightarrow> nat \<Rightarrow> 'g \<Rightarrow> 'c \<Rightarrow> fatal + ('g, 'c) rpcHandler" where
  "makeRPC queueSize' workerNum' gateway' c =
     (let rpc = newRPCHandler queueSize' workerNum' gateway' c in
      case HandlerFunc ''get_status'' getStatusHandler rpc of
        Inl e \<Rightarrow> Inl e
      | Inr rpc \<Rightarrow>
      case HandlerFunc ''get_lastblocks'' getLastBlocksHandler rpc of
        Inl e \<Rightarrow> Inl e
      | Inr rpc \<Rightarrow>
      case HandlerFunc ''get_blocks'' getBlocksHandler rpc of
        Inl e \<Rightarrow> Inl e
      | Inr rpc \<Rightarrow>
      case HandlerFunc ''get_outputs'' getOutputsHandler rpc of
        Inl e \<Rightarrow> Inl e
      | Inr rpc \<Rightarrow> Inr rpc)"

subsection \<open>\<^verbatim>\<open>Start\<close>\<close>

text \<open>\<^verbatim>\<open>Start\<close> builds the handler and enters \<^verbatim>\<open>for { select { ... } }\<close>. Its control
  points are: at the \<^verbatim>\<open>select\<close>; inside the call \<^verbatim>\<open>http.ListenAndServe(addr, rpc)\<close>; returned
  to the caller; the process exited; the process panicked in \<^verbatim>\<open>makeRPC\<close>.\<close>

datatype control = AtSelect | InListenAndServe | Returned | Exited | Panicked

text \<open>What the world outside \<^verbatim>\<open>Start\<close> does at a control point: at the \<^verbatim>\<open>select\<close> the
  channel \<^verbatim>\<open>c\<close> either delivers (a value, or its closing) or is not ready, and the
  listener, which serves for as long as it can, may fail and return its error.\<close>

datatype event = ChanDelivers | ChanNotReady | ListenerFails

text \<open>One step of \<^verbatim>\<open>Start\<close>. \<^verbatim>\<open>case <-c\<close> logs and returns. \<^verbatim>\<open>default\<close> logs and calls
  \<^verbatim>\<open>http.ListenAndServe\<close>, which does not return while it serves and returns a non-nil
  error when it fails; the error goes to \<^verbatim>\<open>logger.Fatal\<close>, which logs it and calls
  \<^verbatim>\<open>os.Exit(1)\<close>, so control never comes back to the loop. An event that cannot happen at a
  control point, and any event after \<^verbatim>\<open>Start\<close> is over, is no step (\<open>None\<close>).\<close>

fun Start_step :: "control \<Rightarrow> event \<Rightarrow> control option" where
  "Start_step AtSelect ChanDelivers = Some Returned"
| "Start_step AtSelect ChanNotReady = Some InListenAndServe"
| "Start_step InListenAndServe ListenerFails = Some Exited"
| "Start_step _ _ = None"

fun Start_run :: "control \<Rightarrow> event list \<Rightarrow> control option" where
  "Start_run p [] = Some p"
| "Start_run p (e # es) =
     (case Start_step p e of None \<Rightarrow> None | Some p' \<Rightarrow> Start_run p' es)"

text \<open>\<^verbatim>\<open>Start\<close> on a sequence of events: \<open>Some p\<close> when the events are an execution of
  \<^verbatim>\<open>Start\<close>, which then stands at \<open>p\<close>. The first statement is the call of \<^verbatim>\<open>makeRPC\<close>.\<close>

definition Start :: "string \<Rightarrow> nat \<Rightarrow> nat \<Rightarrow> 'g \<Rightarrow> 'c \<Rightarrow> event list \<Rightarrow> control option" where
  "Start addr queueSize' workerNum' gateway' c evs =
     (case makeRPC queueSize' workerNum' gateway' c of
        Inl e \<Rightarrow> Start_run Panicked evs
      | Inr rpc \<Rightarrow> Start_run AtSelect evs)"

subsection \<open>The protocol validator and admission\<close>

text \<open>Modelled from the spec: the input of the validator is a raw HTTP request, its
  verb and its body.\<close>

record HTTPRequest =
  verb :: string
  body :: string

text \<open>Modelled from the spec: what the caller of the service gets back at once is a plain
  rejection outside the JSON-RPC envelope, a terminal Response, a rejection for overload,
  or admission to the queue (the Response then comes from a worker).\<close>

datatype 'v reply =
  PlainRejection string | Terminal "'v Response" | Overloaded | Admitted

text \<open>Modelled from the spec: the HTTP handler of \<^verbatim>\<open>rpcHandler\<close> is not in the source file.
  Section 4.1 of the spec: a verb other than POST is rejected plainly; the body is parsed
  as JSON into a Request, and a parse failure is answered with Parse error; a \<^verbatim>\<open>jsonrpc\<close>
  other than the protocol literal is answered with Invalid Request and the message
  "invalid jsonrpc"; an empty or unregistered method is answered with Method not found;
  otherwise the Request is ready for admission. The JSON decoder is a parameter, \<open>None\<close>
  its failure. Each rejection is built by \<^verbatim>\<open>makeErrorResponse\<close> of the source, from the
  code and the message the spec names; \<^verbatim>\<open>makeErrorResponse\<close> has no parameter for an id, and
  the model adds none to what it returns.\<close>

definition validate ::
  "(string \<Rightarrow> Request option) \<Rightarrow> (string \<rightharpoonup> handler) \<Rightarrow> HTTPRequest \<Rightarrow> 'v reply + Request" where
  "validate decode registry r =
     (if verb r \<noteq> ''POST'' then Inl (PlainRejection errMsgNotPost)
      else case decode (body r) of
        None \<Rightarrow> Inl (Terminal (makeErrorResponse errCodeParseError errMsgParseError))
      | Some req \<Rightarrow>
          if Jsonrpc_req req \<noteq> jsonRPC
          then Inl (Terminal (makeErrorResponse errCodeInvalidRequest errMsgInvalidJsonrpc))
          else if Method req = '''' \<or> registry (Method req) = None
          then Inl (Terminal (makeErrorResponse errCodeMethodNotFound errMsgMethodNotFound))
          else Inr req)"

text \<open>Modelled from the spec: the dispatch queue is not in the source file. Section 4.3 of
  the spec: a terminal answer of the validator never reaches the queue; a validated
  Request is rejected at once if the queue already holds \<open>capacity\<close> items and is appended
  to the queue otherwise. The result is the reply and the queue afterwards.\<close>

definition submit ::
  "(string \<Rightarrow> Request option) \<Rightarrow> (string \<rightharpoonup> handler) \<Rightarrow> nat \<Rightarrow> HTTPRequest \<Rightarrow> Request list
     \<Rightarrow> 'v reply \<times> Request list" where
  "submit decode registry capacity r queue =
     (case validate decode registry r of
        Inl rep \<Rightarrow> (rep, queue)
      | Inr req \<Rightarrow>
          if capacity \<le> length queue then (Overloaded, queue)
          else (Admitted, queue @ [req]))"

section \<open>Package coin: addresses\<close>

type_synonym byte = "8 word"

text \<open>Go's builtin \<^verbatim>\<open>copy(dst, src)\<close> writes the first \<open>min (len dst) (len src)\<close> elements of
  \<open>src\<close> over the front of \<open>dst\<close>; the result is \<open>dst\<close> afterwards.\<close>

definition copy :: "'a list \<Rightarrow> 'a list \<Rightarrow> 'a list" where
  "copy dst src = take (length dst) src @ drop (length src) dst"

text \<open>\<^verbatim>\<open>Key\<close> is a \<^verbatim>\<open>[20]byte\<close> and \<^verbatim>\<open>ChkSum\<close> a \<^verbatim>\<open>[4]byte\<close>: lists whose lengths the type
  fixes, which \<open>wf_Address\<close> states.\<close>

record Address =
  Key :: "byte list"
  Version :: byte
  ChkSum :: "byte list"

definition wf_Address :: "Address \<Rightarrow> bool" where
  "wf_Address a = (length (Key a) = 20 \<and> length (ChkSum a) = 4)"

text \<open>The zero value of \<^verbatim>\<open>Address\<close>, as \<^verbatim>\<open>var a Address\<close> declares it.\<close>

definition zeroAddress :: Address where
  "zeroAddress = \<lparr>Key = replicate 20 0, Version = 0, ChkSum = replicate 4 0\<rparr>"

text \<open>The table of address versions, and the initial value of the package variable
  \<^verbatim>\<open>addressVersion\<close>: the entry of \<^verbatim>\<open>"test"\<close> (a missing key reads as the zero byte).
  \<^verbatim>\<open>SetAddressVersion\<close> can change the variable, so the functions that read it take its
  current value as an argument.\<close>

definition addressVersions :: "string \<rightharpoonup> byte" where
  "addressVersions = [''main'' \<mapsto> 0x0F, ''test'' \<mapsto> 0x1F]"

definition addressVersion :: byte where
  "addressVersion = (case addressVersions ''test'' of None \<Rightarrow> 0 | Some v \<Rightarrow> v)"

text \<open>\<^verbatim>\<open>SumSHA256\<close> is not in the source file; it is an argument of every function that
  calls it. Its result has the type \<^verbatim>\<open>SHA256\<close>, 32 bytes. \<^verbatim>\<open>Checksum\<close> copies the first
  \<open>len(c)\<close> bytes of the digest into a fresh \<^verbatim>\<open>[4]byte\<close>.\<close>

definition Checksum :: "(byte list \<Rightarrow> byte list) \<Rightarrow> Address \<Rightarrow> byte list" where
  "Checksum SumSHA256 self =
     (let r1 = Key self @ [Version self];
          r2 = SumSHA256 r1;
          c = replicate 4 0
      in copy c (take (length c) r2))"

definition IsValidChecksum :: "(byte list \<Rightarrow> byte list) \<Rightarrow> Address \<Rightarrow> bool" where
  "IsValidChecksum SumSHA256 self =
     (let c = Checksum SumSHA256 self in c = ChkSum self)"

definition setChecksum :: "(byte list \<Rightarrow> byte list) \<Rightarrow> Address \<Rightarrow> Address" where
  "setChecksum SumSHA256 self = self\<lparr>ChkSum := Checksum SumSHA256 self\<rparr>"

text \<open>\<^verbatim>\<open>addressFromBytes\<close> returns the pair of Go: the Address and the error, \<open>None\<close> for
  \<^verbatim>\<open>nil\<close>. On a wrong length the Address is the zero value; on a wrong checksum it is the
  decoded one.\<close>

definition addressFromBytes ::
  "(byte list \<Rightarrow> byte list) \<Rightarrow> byte list \<Rightarrow> Address \<times> string option" where
  "addressFromBytes SumSHA256 b =
     (let a = zeroAddress;
          keyLen = length (Key a)
      in if length b \<noteq> keyLen + length (ChkSum a) + 1
         then (a, Some ''Invalid address bytes'')
         else
           let a = a\<lparr>Key := copy (Key a) (take keyLen b)\<rparr>;
               a = a\<lparr>Version := b ! keyLen\<rparr>;
               a = a\<lparr>ChkSum := copy (ChkSum a) (drop (keyLen + 1) b)\<rparr>
           in if \<not> IsValidChecksum SumSHA256 a
              then (a, Some ''Invalid checksum'')
              else (a, None))"

text \<open>\<^verbatim>\<open>base58.Base582Hex\<close> is a library function outside the source file: an argument.\<close>

definition DecodeBase58Address ::
  "(byte list \<Rightarrow> byte list) \<Rightarrow> (string \<Rightarrow> byte list) \<Rightarrow> string \<Rightarrow> Address \<times> string option" where
  "DecodeBase58Address SumSHA256 Base582Hex addr =
     addressFromBytes SumSHA256 (Base582Hex addr)"

text \<open>\<^verbatim>\<open>Bytes\<close>: a fresh slice of \<open>keyLen + len(ChkSum) + 1\<close> zero bytes, then the key copied
  to \<open>b[:keyLen]\<close>, the version stored at \<open>b[keyLen]\<close> and the checksum copied to
  \<open>b[keyLen+1:]\<close>.\<close>

definition Bytes :: "Address \<Rightarrow> byte list" where
  "Bytes self =
     (let keyLen = length (Key self);
          b = replicate (keyLen + length (ChkSum self) + 1) 0;
          b = copy (take keyLen b) (Key self) @ drop keyLen b;
          b = b[keyLen := Version self];
          b = take (keyLen + 1) b @ copy (drop (keyLen + 1) b) (ChkSum self)
      in b)"

text \<open>\<^verbatim>\<open>AddressFromPubKey\<close>. The method \<^verbatim>\<open>ToAddressHash\<close> of \<^verbatim>\<open>PubKey\<close> is not in the source
  file: an argument; its result is a \<^verbatim>\<open>[20]byte\<close>. The literal leaves \<^verbatim>\<open>ChkSum\<close> at its
  zero value before \<^verbatim>\<open>setChecksum\<close>.\<close>

definition AddressFromPubKey ::
  "byte \<Rightarrow> (byte list \<Rightarrow> byte list) \<Rightarrow> ('pk \<Rightarrow> byte list) \<Rightarrow> 'pk \<Rightarrow> Address" where
  "AddressFromPubKey addressVersion' SumSHA256 ToAddressHash pubKey =
     (let addr = zeroAddress\<lparr>Version := addressVersion', Key := ToAddressHash pubKey\<rparr>
      in setChecksum SumSHA256 addr)"

section \<open>Properties of the envelope\<close>

lemma makeSuccessResponse_sel:
  "ID (makeSuccessResponse i r) = Some i"
  "Jsonrpc (makeSuccessResponse i r) = jsonRPC"
  "Error (makeSuccessResponse i r) = None"
  "Result (makeSuccessResponse i r) = r"
  by (simp_all add: makeSuccessResponse_def)

lemma makeErrorResponse_sel:
  "ID (makeErrorResponse c m) = None"
  "Jsonrpc (makeErrorResponse c m) = jsonRPC"
  "Error (makeErrorResponse c m) = Some \<lparr>Code = c, Message = m, Data = ''''\<rparr>"
  "Result (makeErrorResponse c m) = None"
  by (simp_all add: makeErrorResponse_def)

text \<open>Claim C1, as stated: every Response carries exactly one of result and error. It
  fails for \<^verbatim>\<open>makeSuccessResponse\<close> when the \<^verbatim>\<open>result\<close> argument is the nil interface:
  \<^verbatim>\<open>makeSuccessResponse("1", nil)\<close> stores nil in \<^verbatim>\<open>Result\<close> and leaves \<^verbatim>\<open>Error\<close> nil, so
  the Response has neither member.\<close>

theorem success_nil_result_has_neither:
  "\<not> hasResult (makeSuccessResponse ''1'' (None :: string option))
   \<and> \<not> hasError (makeSuccessResponse ''1'' (None :: string option))
   \<and> \<not> exactlyOne (makeSuccessResponse ''1'' (None :: string option))"
  by (simp add: exactlyOne_def hasResult_def hasError_def makeSuccessResponse_sel)

text \<open>Claim C1, amended. \<^verbatim>\<open>makeSuccessResponse\<close> yields a Response with error absent whose
  result is the value it was given, so the result is set exactly when that value is not
  nil; \<^verbatim>\<open>makeErrorResponse\<close> yields a Response with error set and result absent. No
  Response of either constructor has both members, an error Response has exactly one, and
  a success Response has exactly one exactly when its result argument is not nil.\<close>

theorem response_result_xor_error:
  "\<not> hasError (makeSuccessResponse i r)
   \<and> Result (makeSuccessResponse i r) = r
   \<and> hasResult (makeSuccessResponse i r) = (r \<noteq> None)
   \<and> exactlyOne (makeSuccessResponse i r) = (r \<noteq> None)
   \<and> hasError (makeErrorResponse c m)
   \<and> \<not> hasResult (makeErrorResponse c m)
   \<and> exactlyOne (makeErrorResponse c m)"
  by (simp add: exactlyOne_def hasResult_def hasError_def makeSuccessResponse_sel
      makeErrorResponse_sel)



text \<open>Claim C3. The error codes of the service are the fixed taxonomy of JSON-RPC 2.0:
  Parse error is -32700, Invalid Request is -32600, Method not found is -32601, Invalid
  params is -32602 and Internal error is -32603, each variable \<open>errCode\<dots>\<close> paired with
  the variable \<open>errMsg\<dots>\<close> that holds the matching message; the five codes are pairwise
  distinct.\<close>

theorem error_code_taxonomy:
  "[(errCodeParseError, errMsgParseError),
    (errCodeInvalidRequest, errMsgInvalidRequest),
    (errCodeMethodNotFound, errMsgMethodNotFound),
    (errCodeInvalidParams, errMsgInvalidParams),
    (errCodeInternalError, errMsgInternalError)]
   = [(- 32700, ''Parse error''),
      (- 32600, ''Invalid Request''),
      (- 32601, ''Method not found''),
      (- 32602, ''Invalid params''),
      (- 32603, ''Internal error'')]
   \<and> distinct [errCodeParseError, errCodeInvalidRequest, errCodeMethodNotFound,
        errCodeInvalidParams, errCodeInternalError]"
  by (simp add: errCodeParseError_def errCodeInvalidRequest_def errCodeMethodNotFound_def
      errCodeInvalidParams_def errCodeInternalError_def errMsgParseError_def
      errMsgInvalidRequest_def errMsgMethodNotFound_def errMsgInvalidParams_def
      errMsgInternalError_def)

text \<open>Claim C4. Every Response built by the service, by \<^verbatim>\<open>makeSuccessResponse\<close> or by
  \<^verbatim>\<open>makeErrorResponse\<close>, has its \<^verbatim>\<open>jsonrpc\<close> field equal to the protocol literal
  \<^verbatim>\<open>"2.0"\<close>, whatever the arguments.\<close>

theorem response_jsonrpc_literal:
  "Jsonrpc (makeSuccessResponse i r) = ''2.0'' \<and> Jsonrpc (makeErrorResponse c m) = ''2.0''"
  by (simp add: makeSuccessResponse_sel makeErrorResponse_sel jsonRPC_def)

section \<open>Properties of the validator\<close>

lemma validate_parse_failure:
  assumes "verb r = ''POST''" "decode (body r) = None"
  shows "validate decode registry r =
           Inl (Terminal (makeErrorResponse errCodeParseError errMsgParseError))"
  using assms by (simp add: validate_def)

lemma validate_invalid_jsonrpc:
  assumes "verb r = ''POST''" "decode (body r) = Some req" "Jsonrpc_req req \<noteq> jsonRPC"
  shows "validate decode registry r =
           Inl (Terminal (makeErrorResponse errCodeInvalidRequest errMsgInvalidJsonrpc))"
  using assms by (simp add: validate_def)

text \<open>Claim C5. For every HTTP POST whose body fails to parse as JSON, the reply of the
  service is at once a Response with a null id and the error code -32700 with the message
  "Parse error", and the dispatch queue is left as it was: the request never reaches it.\<close>

theorem parse_failure_answered_before_queue:
  assumes "verb r = ''POST''" and "decode (body r) = None"
  shows "\<exists>resp. submit decode registry capacity r queue = (Terminal resp, queue)
           \<and> ID resp = None
           \<and> Error resp = Some \<lparr>Code = - 32700, Message = ''Parse error'', Data = ''''\<rparr>
           \<and> Result resp = None"
proof -
  let ?resp = "makeErrorResponse errCodeParseError errMsgParseError :: 'a Response"
  have "submit decode registry capacity r queue = (Terminal ?resp, queue)"
    using assms by (simp add: submit_def validate_parse_failure)
  moreover have "ID ?resp = None" "Result ?resp = None"
    by (simp_all add: makeErrorResponse_sel)
  moreover have "Error ?resp = Some \<lparr>Code = - 32700, Message = ''Parse error'', Data = ''''\<rparr>"
    by (simp add: makeErrorResponse_sel errCodeParseError_def errMsgParseError_def)
  ultimately show ?thesis by blast
qed

text \<open>A POST with the body \<^verbatim>\<open>{\<close>, which a decoder that accepts only \<^verbatim>\<open>{}\<close> rejects,
  submitted while one request waits in a queue of capacity 1.\<close>

theorem parse_failure_witness:
  "verb \<lparr>verb = ''POST'', body = ''{''\<rparr> = ''POST''
   \<and> (\<lambda>s. if s = ''{}'' then Some (NewRequest [] Map.empty []) else None)
        (body \<lparr>verb = ''POST'', body = ''{''\<rparr>) = None
   \<and> (\<exists>resp. submit (\<lambda>s. if s = ''{}'' then Some (NewRequest [] Map.empty []) else None)
          Map.empty 1 \<lparr>verb = ''POST'', body = ''{''\<rparr>
          [NewRequest ''get_status'' Map.empty ''7'']
        = (Terminal (resp :: string Response), [NewRequest ''get_status'' Map.empty ''7''])
        \<and> ID resp = None
        \<and> Error resp = Some \<lparr>Code = - 32700, Message = ''Parse error'', Data = ''''\<rparr>
        \<and> Result resp = None)"
  using parse_failure_answered_before_queue
    [of "\<lparr>verb = ''POST'', body = ''{''\<rparr>"
        "\<lambda>s. if s = ''{}'' then Some (NewRequest [] Map.empty []) else None"
        Map.empty 1 "[NewRequest ''get_status'' Map.empty ''7'']", where ?'a = string]
  by simp

text \<open>Claim C6. For every POST whose body parses to a Request with a \<^verbatim>\<open>jsonrpc\<close> field other
  than \<^verbatim>\<open>"2.0"\<close>, the reply of the service is a Response whose error has the code -32600
  and the message "invalid jsonrpc".\<close>

theorem invalid_jsonrpc_rejected:
  assumes "verb r = ''POST''" and "decode (body r) = Some req"
    and "Jsonrpc_req req \<noteq> ''2.0''"
  shows "\<exists>resp. fst (submit decode registry capacity r queue) = Terminal resp
           \<and> Error resp = Some \<lparr>Code = - 32600, Message = ''invalid jsonrpc'', Data = ''''\<rparr>"
proof -
  let ?resp = "makeErrorResponse errCodeInvalidRequest errMsgInvalidJsonrpc :: 'a Response"
  from assms(3) have "Jsonrpc_req req \<noteq> jsonRPC"
    by (simp add: jsonRPC_def)
  then have "fst (submit decode registry capacity r queue) = Terminal ?resp"
    using assms(1,2) by (simp add: submit_def validate_invalid_jsonrpc)
  moreover have "Error ?resp = Some \<lparr>Code = - 32600, Message = ''invalid jsonrpc'', Data = ''''\<rparr>"
    by (simp add: makeErrorResponse_sel errCodeInvalidRequest_def errMsgInvalidJsonrpc_def)
  ultimately show ?thesis by blast
qed

text \<open>A POST with the body \<^verbatim>\<open>{}\<close>, which the decoder reads as a Request with the
  \<^verbatim>\<open>jsonrpc\<close> field \<^verbatim>\<open>"1.0"\<close>.\<close>

theorem invalid_jsonrpc_witness:
  "verb \<lparr>verb = ''POST'', body = ''{}''\<rparr> = ''POST''
   \<and> (\<lambda>s. if s = ''{}'' then Some (NewRequest [] Map.empty []\<lparr>Jsonrpc_req := ''1.0''\<rparr>) else None)
        (body \<lparr>verb = ''POST'', body = ''{}''\<rparr>)
       = Some (NewRequest [] Map.empty []\<lparr>Jsonrpc_req := ''1.0''\<rparr>)
   \<and> Jsonrpc_req (NewRequest [] Map.empty []\<lparr>Jsonrpc_req := ''1.0''\<rparr>) \<noteq> ''2.0''
   \<and> (\<exists>resp. fst (submit
          (\<lambda>s. if s = ''{}'' then Some (NewRequest [] Map.empty []\<lparr>Jsonrpc_req := ''1.0''\<rparr>)
                else None)
          Map.empty 1 \<lparr>verb = ''POST'', body = ''{}''\<rparr> []) = Terminal (resp :: string Response)
        \<and> Error resp = Some \<lparr>Code = - 32600, Message = ''invalid jsonrpc'', Data = ''''\<rparr>)"
  using invalid_jsonrpc_rejected
    [of "\<lparr>verb = ''POST'', body = ''{}''\<rparr>"
        "\<lambda>s. if s = ''{}'' then Some (NewRequest [] Map.empty []\<lparr>Jsonrpc_req := ''1.0''\<rparr>)
             else None"
        "NewRequest [] Map.empty []\<lparr>Jsonrpc_req := ''1.0''\<rparr>"
        Map.empty 1 "[]", where ?'a = string]
  by (simp add: NewRequest_def)

section \<open>Properties of \<^verbatim>\<open>makeRPC\<close> and \<^verbatim>\<open>Start\<close>\<close>

lemma makeRPC_registry:
  "makeRPC q w g c =
     Inr \<lparr>queueSize = q, workerNum = w, gateway = g, quit = c,
          handlers = [''get_status'' \<mapsto> getStatusHandler,
                      ''get_lastblocks'' \<mapsto> getLastBlocksHandler,
                      ''get_blocks'' \<mapsto> getBlocksHandler,
                      ''get_outputs'' \<mapsto> getOutputsHandler]\<rparr>"
  by (simp add: makeRPC_def newRPCHandler_def HandlerFunc_def)

text \<open>Claim C7. \<^verbatim>\<open>makeRPC\<close> ends without a fatal error, and the registry of the handler it
  returns binds exactly four methods, \<^verbatim>\<open>get_status\<close>, \<^verbatim>\<open>get_lastblocks\<close>, \<^verbatim>\<open>get_blocks\<close> and
  \<^verbatim>\<open>get_outputs\<close>, to the handlers of the status, recent-blocks, block-range and
  unspent-outputs queries.\<close>

theorem makeRPC_registers_four_methods:
  "\<exists>rpc. makeRPC q w g c = Inr rpc
     \<and> dom (handlers rpc) = {''get_status'', ''get_lastblocks'', ''get_blocks'', ''get_outputs''}
     \<and> card (dom (handlers rpc)) = 4
     \<and> handlers rpc ''get_status'' = Some getStatusHandler
     \<and> handlers rpc ''get_lastblocks'' = Some getLastBlocksHandler
     \<and> handlers rpc ''get_blocks'' = Some getBlocksHandler
     \<and> handlers rpc ''get_outputs'' = Some getOutputsHandler"
  unfolding makeRPC_registry by auto

lemma Start_run_final:
  "p \<in> {Returned, Exited, Panicked} \<Longrightarrow> Start_run p evs = Some q \<Longrightarrow> evs = [] \<and> q = p"
  by (cases evs) auto

lemma Start_run_listening:
  "Start_run InListenAndServe evs = Some q \<Longrightarrow>
     (evs = [] \<and> q = InListenAndServe) \<or> (evs = [ListenerFails] \<and> q = Exited)"
  by (cases evs; cases "hd evs") (auto dest: Start_run_final [rotated])

lemma Start_run_select:
  "Start_run AtSelect evs = Some q \<Longrightarrow>
     (evs = [] \<and> q = AtSelect) \<or> (evs = [ChanDelivers] \<and> q = Returned)
     \<or> (evs = [ChanNotReady] \<and> q = InListenAndServe)
     \<or> (evs = [ChanNotReady, ListenerFails] \<and> q = Exited)"
  by (cases evs; cases "hd evs") (auto dest: Start_run_final [rotated] Start_run_listening)

lemma Start_is_run: "Start addr q w g c evs = Start_run AtSelect evs"
  by (simp add: Start_def makeRPC_registry)

text \<open>Claim C8. In every execution of \<^verbatim>\<open>Start\<close>, \<^verbatim>\<open>Start\<close> has returned exactly when the one
  step taken was the branch \<^verbatim>\<open>case <-c\<close> of the \<^verbatim>\<open>select\<close>, the channel delivering; and an
  execution in which the listener fails ends with the process exited, not with \<^verbatim>\<open>Start\<close>
  returned.\<close>

theorem Start_returns_only_on_shutdown:
  "(Start addr q w g c evs = Some Returned) = (evs = [ChanDelivers])
   \<and> (ListenerFails \<in> set evs \<longrightarrow> Start addr q w g c evs = Some p \<longrightarrow>
        p = Exited \<and> evs = [ChanNotReady, ListenerFails])"
  unfolding Start_is_run by (auto dest: Start_run_select)

text \<open>The two complete executions: the channel not ready and the listener failing, and the
  channel delivering.\<close>

theorem Start_returns_only_on_shutdown_witness:
  "ListenerFails \<in> set [ChanNotReady, ListenerFails]
   \<and> Start ''127.0.0.1:6422'' 1000 10 () () [ChanNotReady, ListenerFails] = Some Exited
   \<and> Start ''127.0.0.1:6422'' 1000 10 () () [ChanDelivers] = Some Returned"
  using Start_returns_only_on_shutdown
    [of "''127.0.0.1:6422''" 1000 10 "()" "()" "[ChanNotReady, ListenerFails]" Exited]
    Start_returns_only_on_shutdown
    [of "''127.0.0.1:6422''" 1000 10 "()" "()" "[ChanDelivers]" Returned]
  by (simp add: Start_def makeRPC_registry)

section \<open>Properties of addresses\<close>

lemma length_copy: "length (copy dst src) = length dst"
  by (simp add: copy_def)

lemma copy_same_length: "length src = length dst \<Longrightarrow> copy dst src = src"
  by (simp add: copy_def)

text \<open>The four statements of \<^verbatim>\<open>Bytes\<close>, for a key of \<open>n\<close> bytes and a checksum of \<open>m\<close>.\<close>

lemma make_fill:
  assumes "length k = n" "length c = m"
  shows "(let b = replicate (n + m + 1) (0::byte);
              b = copy (take n b) k @ drop n b;
              b = b[n := v];
              b = take (n + 1) b @ copy (drop (n + 1) b) c
          in b) = k @ [v] @ c"
proof -
  let ?b0 = "replicate (n + m + 1) (0::byte)"
  have b0: "?b0 = replicate n 0 @ replicate (m + 1) 0"
    by (simp only: replicate_add add.assoc)
  have b1: "copy (take n ?b0) k @ drop n ?b0 = k @ replicate (m + 1) 0"
    unfolding b0 using assms by (simp add: copy_same_length)
  have b2: "(k @ replicate (m + 1) (0::byte))[n := v] = k @ v # replicate m 0"
    using assms by (simp add: list_update_append)
  have b3: "take (n + 1) (k @ v # replicate m (0::byte)) = k @ [v]"
    using assms by simp
  have b4: "copy (drop (n + 1) (k @ v # replicate m (0::byte))) c = c"
    using assms by (simp add: copy_same_length)
  show ?thesis
    unfolding Let_def b1 b2 b3 b4 by simp
qed

lemma Bytes_layout: "Bytes a = Key a @ [Version a] @ ChkSum a"
  using make_fill [of "Key a" "length (Key a)" "ChkSum a" "length (ChkSum a)" "Version a"]
  by (simp add: Bytes_def Let_def)

lemma length_Bytes:
  assumes "wf_Address a"
  shows "length (Bytes a) = 25"
  using assms by (simp add: Bytes_layout wf_Address_def)

lemma addressFromBytes_wrong_length:
  assumes "length b \<noteq> 25"
  shows "addressFromBytes sha b = (zeroAddress, Some ''Invalid address bytes'')"
  using assms by (simp add: addressFromBytes_def Let_def zeroAddress_def)

lemma addressFromBytes_decoded:
  assumes "length b = 25"
  shows "addressFromBytes sha b =
    (let a = \<lparr>Key = take 20 b, Version = b ! 20, ChkSum = drop 21 b\<rparr>
     in if IsValidChecksum sha a then (a, None) else (a, Some ''Invalid checksum''))"
proof -
  have k: "copy (replicate 20 (0::byte)) (take 20 b) = take 20 b"
    using assms by (simp add: copy_same_length)
  have c: "copy (replicate 4 (0::byte)) (drop 21 b) = drop 21 b"
    using assms by (simp add: copy_same_length)
  show ?thesis
    using assms
    by (simp add: addressFromBytes_def Let_def k c zeroAddress_def)
qed

lemma Checksum_take:
  assumes "4 \<le> length (sha (Key a @ [Version a]))"
  shows "Checksum sha a = take 4 (sha (Key a @ [Version a]))"
  using assms by (simp add: Checksum_def Let_def copy_same_length)

lemma length_Checksum: "length (Checksum sha a) = 4"
  by (simp add: Checksum_def Let_def length_copy)

lemma addressFromBytes_Bytes:
  assumes "wf_Address a" "IsValidChecksum sha a"
  shows "addressFromBytes sha (Bytes a) = (a, None)"
proof -
  have l: "length (Bytes a) = 25" using assms(1) by (rule length_Bytes)
  have "take 20 (Bytes a) = Key a" "Bytes a ! 20 = Version a" "drop 21 (Bytes a) = ChkSum a"
    using assms(1) by (simp_all add: Bytes_layout wf_Address_def nth_append)
  then have "\<lparr>Key = take 20 (Bytes a), Version = Bytes a ! 20, ChkSum = drop 21 (Bytes a)\<rparr> = a"
    by simp
  then show ?thesis
    using assms(2) by (simp add: addressFromBytes_decoded [OF l] Let_def)
qed

lemma AddressFromPubKey_valid:
  assumes "length (h pk) = 20"
  shows "wf_Address (AddressFromPubKey v sha h pk)"
    and "IsValidChecksum sha (AddressFromPubKey v sha h pk)"
proof -
  let ?a = "AddressFromPubKey v sha h pk"
  have sel: "Key ?a = h pk" "Version ?a = v"
    "ChkSum ?a = Checksum sha (zeroAddress\<lparr>Version := v, Key := h pk\<rparr>)"
    by (simp_all add: AddressFromPubKey_def setChecksum_def Let_def)
  show "wf_Address ?a"
    using assms by (simp add: wf_Address_def sel length_Checksum)
  have "Checksum sha ?a = Checksum sha (zeroAddress\<lparr>Version := v, Key := h pk\<rparr>)"
    by (simp add: Checksum_def sel)
  then show "IsValidChecksum sha ?a"
    by (simp add: IsValidChecksum_def Let_def sel)
qed

text \<open>Claim C9. With \<^verbatim>\<open>SumSHA256\<close> returning 32 bytes, \<^verbatim>\<open>DecodeBase58Address\<close> returns an
  error if and only if the decoded byte string \<open>b\<close> is not exactly 25 bytes long or its
  last 4 bytes differ from the first 4 bytes of \<^verbatim>\<open>SumSHA256\<close> of the key (the first 20
  bytes) followed by the version byte (\<open>b[20]\<close>); and when it returns no error, the Address
  it returns is the decoded one: key \<open>b[0:20]\<close>, version \<open>b[20]\<close>, checksum \<open>b[21:25]\<close>.\<close>

theorem DecodeBase58Address_error_iff:
  assumes sha: "\<forall>x. length (SumSHA256 x) = 32"
  shows "let b = Base582Hex addr;
             r = DecodeBase58Address SumSHA256 Base582Hex addr
         in (snd r \<noteq> None) =
              (length b \<noteq> 25 \<or>
               drop 21 b \<noteq> take 4 (SumSHA256 (take 20 b @ [b ! 20])))
            \<and> (snd r = None \<longrightarrow>
                 fst r = \<lparr>Key = take 20 b, Version = b ! 20, ChkSum = drop 21 b\<rparr>)"
proof (cases "length (Base582Hex addr) = 25")
  case False
  then show ?thesis
    by (simp add: DecodeBase58Address_def addressFromBytes_wrong_length Let_def)
next
  case True
  let ?b = "Base582Hex addr"
  let ?a = "\<lparr>Key = take 20 ?b, Version = ?b ! 20, ChkSum = drop 21 ?b\<rparr>"
  have "Checksum SumSHA256 ?a = take 4 (SumSHA256 (take 20 ?b @ [?b ! 20]))"
    using sha by (simp add: Checksum_take)
  then have "IsValidChecksum SumSHA256 ?a =
      (drop 21 ?b = take 4 (SumSHA256 (take 20 ?b @ [?b ! 20])))"
    by (auto simp add: IsValidChecksum_def Let_def)
  with True show ?thesis
    by (simp add: DecodeBase58Address_def addressFromBytes_decoded Let_def)
qed

text \<open>A digest that repeats the sum of its input 32 times and a decoder that reads each
  character as a byte: 20 bytes 65 and the version 66 sum to 86 modulo 256, so the string
  ending in \<^verbatim>\<open>VVVV\<close> decodes, the one ending in \<^verbatim>\<open>VVVW\<close> has a wrong checksum, and
  \<^verbatim>\<open>AAAA\<close> a wrong length.\<close>

theorem DecodeBase58Address_witness:
  "(\<forall>x. length (replicate 32 (sum_list x) :: byte list) = 32)
   \<and> DecodeBase58Address (\<lambda>x. replicate 32 (sum_list x)) (map of_char)
        ''AAAAAAAAAAAAAAAAAAAABVVVV''
       = (\<lparr>Key = replicate 20 65, Version = 66, ChkSum = replicate 4 86\<rparr>, None)
   \<and> snd (DecodeBase58Address (\<lambda>x. replicate 32 (sum_list x)) (map of_char)
        ''AAAAAAAAAAAAAAAAAAAABVVVW'') \<noteq> None
   \<and> snd (DecodeBase58Address (\<lambda>x. replicate 32 (sum_list x)) (map of_char)
        ''AAAA'') \<noteq> None"
proof -
  let ?sha = "\<lambda>x. replicate 32 (sum_list x) :: byte list"
  let ?b58 = "map of_char :: string \<Rightarrow> byte list"
  let ?good = "''AAAAAAAAAAAAAAAAAAAABVVVV''"
  let ?bad = "''AAAAAAAAAAAAAAAAAAAABVVVW''"
  have sha: "\<forall>x. length (?sha x) = 32"
    by simp
  have good: "\<not> (length (?b58 ?good) \<noteq> 25 \<or>
      drop 21 (?b58 ?good) \<noteq> take 4 (?sha (take 20 (?b58 ?good) @ [?b58 ?good ! 20])))"
    by code_simp
  have decoded: "\<lparr>Key = take 20 (?b58 ?good), Version = ?b58 ?good ! 20,
      ChkSum = drop 21 (?b58 ?good)\<rparr>
    = \<lparr>Key = replicate 20 65, Version = 66, ChkSum = replicate 4 86\<rparr>"
    by code_simp
  have bad: "drop 21 (?b58 ?bad) \<noteq> take 4 (?sha (take 20 (?b58 ?bad) @ [?b58 ?bad ! 20]))"
    by code_simp
  have short: "length (?b58 ''AAAA'') \<noteq> 25"
    by simp
  have 1: "DecodeBase58Address ?sha ?b58 ?good
      = (\<lparr>Key = replicate 20 65, Version = 66, ChkSum = replicate 4 86\<rparr>, None)"
    using DecodeBase58Address_error_iff [OF sha, of ?b58 ?good] good decoded
    unfolding Let_def by (metis prod.collapse)
  have 2: "snd (DecodeBase58Address ?sha ?b58 ?bad) \<noteq> None"
    using DecodeBase58Address_error_iff [OF sha, of ?b58 ?bad] bad
    unfolding Let_def by blast
  have 3: "snd (DecodeBase58Address ?sha ?b58 ''AAAA'') \<noteq> None"
    using DecodeBase58Address_error_iff [OF sha, of ?b58 "''AAAA''"] short
    unfolding Let_def by blast
  from sha 1 2 3 show ?thesis by blast
qed

text \<open>Claim C10. For every Address \<open>a\<close> (a 20-byte key and a 4-byte checksum), \<^verbatim>\<open>Bytes\<close>
  yields exactly 25 bytes: the key, then the version, then the checksum. If the checksum
  of \<open>a\<close> is valid, \<^verbatim>\<open>addressFromBytes\<close> of these bytes returns \<open>a\<close> and no error. Every
  address made by \<^verbatim>\<open>AddressFromPubKey\<close> from a 20-byte address hash has a valid checksum
  and makes this round trip.\<close>

theorem Address_Bytes_roundtrip:
  assumes "wf_Address a"
  shows "length (Bytes a) = 25
     \<and> Bytes a = Key a @ [Version a] @ ChkSum a
     \<and> (IsValidChecksum SumSHA256 a \<longrightarrow> addressFromBytes SumSHA256 (Bytes a) = (a, None))
     \<and> (length (ToAddressHash pubKey) = 20 \<longrightarrow>
          IsValidChecksum SumSHA256 (AddressFromPubKey v SumSHA256 ToAddressHash pubKey)
          \<and> addressFromBytes SumSHA256
               (Bytes (AddressFromPubKey v SumSHA256 ToAddressHash pubKey))
             = (AddressFromPubKey v SumSHA256 ToAddressHash pubKey, None))"
proof -
  let ?p = "AddressFromPubKey v SumSHA256 ToAddressHash pubKey"
  have len: "length (Bytes a) = 25"
    using assms by (rule length_Bytes)
  have layout: "Bytes a = Key a @ [Version a] @ ChkSum a"
    by (rule Bytes_layout)
  have trip: "IsValidChecksum SumSHA256 a \<longrightarrow> addressFromBytes SumSHA256 (Bytes a) = (a, None)"
    using assms by (simp add: addressFromBytes_Bytes)
  have pub: "length (ToAddressHash pubKey) = 20 \<longrightarrow>
      IsValidChecksum SumSHA256 ?p \<and> addressFromBytes SumSHA256 (Bytes ?p) = (?p, None)"
  proof
    assume h: "length (ToAddressHash pubKey) = 20"
    have "wf_Address ?p" and "IsValidChecksum SumSHA256 ?p"
      using h by (rule AddressFromPubKey_valid)+
    then show "IsValidChecksum SumSHA256 ?p \<and> addressFromBytes SumSHA256 (Bytes ?p) = (?p, None)"
      by (simp add: addressFromBytes_Bytes)
  qed
  from len layout trip pub show ?thesis by blast
qed

text \<open>The address with the key of 20 bytes 1, the version of the test network and the
  checksum 51 (20 + 31) under the digest that repeats the sum of its input; and the
  address of a public key whose address hash is 20 bytes 7.\<close>

theorem Address_Bytes_roundtrip_witness:
  "wf_Address \<lparr>Key = replicate 20 1, Version = addressVersion, ChkSum = replicate 4 51\<rparr>
   \<and> IsValidChecksum (\<lambda>x. replicate 32 (sum_list x))
        \<lparr>Key = replicate 20 1, Version = addressVersion, ChkSum = replicate 4 51\<rparr>
   \<and> length (replicate 20 (7 :: byte)) = 20
   \<and> length (Bytes \<lparr>Key = replicate 20 1, Version = addressVersion, ChkSum = replicate 4 51\<rparr>)
       = 25
   \<and> addressFromBytes (\<lambda>x. replicate 32 (sum_list x))
        (Bytes \<lparr>Key = replicate 20 1, Version = addressVersion, ChkSum = replicate 4 51\<rparr>)
       = (\<lparr>Key = replicate 20 1, Version = addressVersion, ChkSum = replicate 4 51\<rparr>, None)
   \<and> addressFromBytes (\<lambda>x. replicate 32 (sum_list x))
        (Bytes (AddressFromPubKey addressVersion (\<lambda>x. replicate 32 (sum_list x))
           (replicate 20) (7 :: byte)))
       = (AddressFromPubKey addressVersion (\<lambda>x. replicate 32 (sum_list x))
           (replicate 20) (7 :: byte), None)"
proof -
  let ?sha = "\<lambda>x. replicate 32 (sum_list x) :: byte list"
  let ?a = "\<lparr>Key = replicate 20 1, Version = addressVersion, ChkSum = replicate 4 51\<rparr>"
  have wf: "wf_Address ?a"
    by (simp add: wf_Address_def)
  have valid: "IsValidChecksum ?sha ?a"
    by code_simp
  have h: "length (replicate 20 (7 :: byte)) = 20"
    by simp
  from Address_Bytes_roundtrip [OF wf, of ?sha "replicate 20" "7 :: byte" addressVersion]
    wf valid h show ?thesis by blast
qed

end
